theory Spec2Isabelle
  imports Complex_Main
begin

section \<open>Numbers of the source language\<close>

text \<open>
  The adaptation engine computes with Python \<^verbatim>\<open>int\<close> (unbounded, modelled by \<^typ>\<open>int\<close>)
  and Python \<^verbatim>\<open>float\<close>. A float is modelled by the exact real number it denotes:
  the binary64 rounding error of each operation, infinities and NaN are outside the model.
  Decimal literals of the source (\<^verbatim>\<open>0.75\<close>, \<^verbatim>\<open>0.40\<close>) are the exact decimals.
\<close>

type_synonym pyfloat = real

text \<open>\<^verbatim>\<open>int(x)\<close> of a float truncates towards zero.\<close>

definition py_int :: "pyfloat \<Rightarrow> int" where
  "py_int x = (if 0 \<le> x then \<lfloor>x\<rfloor> else \<lceil>x\<rceil>)"

text \<open>
  \<^verbatim>\<open>round(x)\<close> and \<^verbatim>\<open>round(x, n)\<close> round to the nearest value and break a tie
  towards the even neighbour.
\<close>

definition round_half_even :: "pyfloat \<Rightarrow> int" where
  "round_half_even x =
     (let f = \<lfloor>x\<rfloor>; d = x - of_int f
      in if d < 1 / 2 then f
         else if 1 / 2 < d then f + 1
         else if even f then f else f + 1)"

definition py_round :: "pyfloat \<Rightarrow> nat \<Rightarrow> pyfloat" where
  "py_round x n = of_int (round_half_even (x * 10 ^ n)) / 10 ^ n"

text \<open>Exceptions the modelled code can raise.\<close>

datatype error = TypeError | ZeroDivisionError | KeyError | ValidationError

section \<open>Sessions (models/session.py)\<close>

datatype SessionType =
  ENDURANCE | TEMPO | THRESHOLD | INTERVALS | LONG_RUN | RECOVERY | RACE | REST | FARTLEK

datatype SessionIntensity = VERY_EASY | EASY | MODERATE | HARD | VERY_HARD

datatype SessionStatus = PLANNED | ADAPTED | COMPLETED | SKIPPED | POSTPONED

text \<open>
  A \<^verbatim>\<open>PaceZone\<close>. Field names carry the prefix \<open>z_\<close> where the session has a field of
  the same name.
\<close>

record PaceZone =
  z_description :: string
  z_duration_minutes :: "int option"
  z_distance_km :: "pyfloat option"
  pace_min_per_km :: string
  pace_max_per_km :: "string option"
  hr_zone :: "string option"
  repetitions :: int
  recovery_minutes :: "pyfloat option"

text \<open>
  The text stored in \<^verbatim>\<open>adaptation_reason\<close>: either a value given by the caller or one of
  the two messages the adapter writes. The first adapter message is the f-string
  \<^verbatim>\<open>"Seance allegee a {int(reduction*100)}% du volume"\<close> (accents dropped here), kept as
  its integer argument; the second is the fixed text of \<^verbatim>\<open>_replace_with_easy\<close>.
\<close>

datatype adaptation_text =
  GivenReason string
  | LightenedTo int
  | ReplacedByActiveRecovery

text \<open>
  A naive \<^verbatim>\<open>datetime\<close> is its number of microseconds on the time line; the difference of
  two of them is a \<^verbatim>\<open>timedelta\<close>, whose \<^verbatim>\<open>days\<close> attribute is the floor of the
  difference divided by one day.
\<close>

type_synonym datetime = int

definition timedelta_days :: "datetime \<Rightarrow> datetime \<Rightarrow> int" where
  "timedelta_days later earlier = (later - earlier) div 86400000000"

text \<open>
  A \<^verbatim>\<open>TrainingSession\<close>. The fields the adapter neither reads nor writes (placement in
  the plan, scheduling, the recorded actuals other than \<^verbatim>\<open>completed_at\<close>, the two
  bookkeeping timestamps) are copied unchanged by \<^verbatim>\<open>model_copy(deep=True)\<close> and are
  left out. \<^verbatim>\<open>id\<close> is \<open>session_id\<close> and \<^verbatim>\<open>structure\<close> is \<open>zones\<close>.
\<close>

record TrainingSession =
  session_id :: string
  session_type :: SessionType
  intensity :: SessionIntensity
  title :: string
  description :: string
  duration_minutes :: int
  distance_km :: "pyfloat option"
  zones :: "PaceZone list"
  status :: SessionStatus
  adaptation_reason :: "adaptation_text option"
  is_key_session :: bool
  can_be_postponed :: bool
  can_be_replaced :: bool
  completed_at :: "datetime option"

text \<open>
  What the constructor validates: \<^verbatim>\<open>duration_minutes: int = Field(..., gt=0)\<close>.
  Assignments to a field are not validated.
\<close>

definition valid_session :: "TrainingSession \<Rightarrow> bool" where
  "valid_session s = (0 < duration_minutes s)"

section \<open>Session mutation (core/session_adapter.py)\<close>

text \<open>The loop body of \<^verbatim>\<open>_lighten_session\<close> on one zone.\<close>

definition lighten_zone :: "pyfloat \<Rightarrow> PaceZone \<Rightarrow> PaceZone" where
  "lighten_zone reduction zone =
     (let zone1 =
            (case z_duration_minutes zone of
               None \<Rightarrow> zone
             | Some d \<Rightarrow>
                 if d \<noteq> 0
                 then zone\<lparr>z_duration_minutes := Some (py_int (of_int d * reduction))\<rparr>
                 else zone)
      in case z_distance_km zone1 of
           None \<Rightarrow> zone1
         | Some k \<Rightarrow>
             if k \<noteq> 0
             then zone1\<lparr>z_distance_km := Some (py_round (k * reduction) 2)\<rparr>
             else zone1)"

definition lighten_intensity :: "SessionIntensity \<Rightarrow> SessionIntensity" where
  "lighten_intensity i =
     (if i = VERY_HARD then HARD
      else if i = HARD then MODERATE
      else i)"

definition lighten_session :: "TrainingSession \<Rightarrow> pyfloat \<Rightarrow> TrainingSession" where
  "lighten_session session reduction =
     (let m1 = session\<lparr>session_id := session_id session @ ''_adapted'',
                       status := ADAPTED,
                       adaptation_reason := Some (LightenedTo (py_int (reduction * 100)))\<rparr>;
          m2 = m1\<lparr>duration_minutes := py_int (of_int (duration_minutes m1) * reduction)\<rparr>;
          m3 = (case distance_km m2 of
                  None \<Rightarrow> m2
                | Some k \<Rightarrow>
                    if k \<noteq> 0 then m2\<lparr>distance_km := Some (py_round (k * reduction) 1)\<rparr>
                    else m2);
          m4 = m3\<lparr>zones := map (lighten_zone reduction) (zones m3)\<rparr>
      in m4\<lparr>intensity := lighten_intensity (intensity m4)\<rparr>)"

text \<open>
  The texts written by \<^verbatim>\<open>_replace_with_easy\<close>, as UTF-8 bytes: the accented letters
  are two bytes each.
\<close>

definition e_acute :: string where
  "e_acute = [CHR 0xC3, CHR 0xA9]"

definition e_grave :: string where
  "e_grave = [CHR 0xC3, CHR 0xA8]"

definition easy_zone :: "int \<Rightarrow> PaceZone" where
  "easy_zone d =
     \<lparr>z_description = ''Endurance tr'' @ e_grave @ ''s facile'',
      z_duration_minutes = Some d,
      z_distance_km = None,
      pace_min_per_km = ''6:15'',
      pace_max_per_km = Some ''6:30'',
      hr_zone = Some ''70-75% FCmax'',
      repetitions = 1,
      recovery_minutes = None\<rparr>"

definition replace_with_easy :: "TrainingSession \<Rightarrow> TrainingSession" where
  "replace_with_easy session =
     (let m1 = session\<lparr>session_id := session_id session @ ''_easy'',
                       session_type := RECOVERY,
                       intensity := EASY,
                       status := ADAPTED,
                       adaptation_reason := Some ReplacedByActiveRecovery,
                       title := ''R'' @ e_acute @ ''cup'' @ e_acute @ ''ration active (remplace ''
                                @ title session @ '')'',
                       description := ''Course facile de r'' @ e_acute @ ''cup''
                                      @ e_acute @ ''ration''\<rparr>;
          m2 = m1\<lparr>duration_minutes := min 40 (py_int (of_int (duration_minutes session) * 0.6)),
                  distance_km := Some 6.0\<rparr>
      in m2\<lparr>zones := [easy_zone (duration_minutes m2)]\<rparr>)"

section \<open>The decision ladder (core/session_adapter.py, config/settings.py)\<close>

datatype AdaptationAction = MAINTAIN | MONITOR | REDUCE | REPLACE | POSTPONE | CANCEL

text \<open>
  The dictionary \<^verbatim>\<open>RECOVERY_THRESHOLDS\<close> has five fixed keys and is only read with
  these keys: a record.
\<close>

record thresholds =
  excellent :: int
  good :: int
  moderate :: int
  poor :: int
  very_poor :: int

definition RECOVERY_THRESHOLDS :: thresholds where
  "RECOVERY_THRESHOLDS =
     \<lparr>excellent = 85, good = 70, moderate = 55, poor = 40, very_poor = 0\<rparr>"

definition ACWR_OPTIMAL_MIN :: pyfloat where
  "ACWR_OPTIMAL_MIN = 0.8"

definition ACWR_OPTIMAL_MAX :: pyfloat where
  "ACWR_OPTIMAL_MAX = 1.3"

text \<open>
  The six reason texts returned by \<^verbatim>\<open>_decide_action\<close>, one constructor for each
  literal, in the order of the source.
\<close>

datatype reason =
  OptimalConditions
  | GoodConditionsWatchFatigue
  | AverageRecoveryLightened25
  | LowRecoveryReplacedByEasy
  | LowRecoveryLightened40
  | CalendarConflictPostpone
  | InsufficientRecoveryRest

text \<open>The weighted composite score computed at the head of \<^verbatim>\<open>_decide_action\<close>.\<close>

definition composite_score :: "pyfloat \<Rightarrow> pyfloat \<Rightarrow> pyfloat \<Rightarrow> pyfloat \<Rightarrow> pyfloat" where
  "composite_score recovery_factor load_factor sequence_factor availability_factor =
     (recovery_factor * 0.40 + load_factor * 0.25 + sequence_factor * 0.20
        + availability_factor * 0.15) * 100"

definition decide_action ::
  "thresholds \<Rightarrow> TrainingSession \<Rightarrow> pyfloat \<Rightarrow> pyfloat \<Rightarrow> pyfloat \<Rightarrow> pyfloat \<Rightarrow> pyfloat
     \<Rightarrow> AdaptationAction \<times> reason \<times> TrainingSession option" where
  "decide_action ths session recovery_score recovery_factor availability_factor
       load_factor sequence_factor =
     (let composite =
            composite_score recovery_factor load_factor sequence_factor availability_factor;
          threshold_adjust = (if is_key_session session then - 5 else 0 :: int)
      in if of_int (excellent ths + threshold_adjust) \<le> composite
         then (MAINTAIN, OptimalConditions, None)
         else if of_int (good ths + threshold_adjust) \<le> composite
         then (MONITOR, GoodConditionsWatchFatigue, None)
         else if of_int (moderate ths + threshold_adjust) \<le> composite
         then (REDUCE, AverageRecoveryLightened25, Some (lighten_session session 0.75))
         else if of_int (poor ths + threshold_adjust) \<le> composite
         then (if intensity session \<in> {HARD, VERY_HARD}
               then (REPLACE, LowRecoveryReplacedByEasy, Some (replace_with_easy session))
               else (REDUCE, LowRecoveryLightened40, Some (lighten_session session 0.6)))
         else (if availability_factor < 0.4 \<and> can_be_postponed session
               then (POSTPONE, CalendarConflictPostpone, None)
               else (CANCEL, InsufficientRecoveryRest, None)))"

section \<open>Daily metrics (models/metrics.py)\<close>

datatype SleepQuality = SQ_POOR | SQ_FAIR | SQ_GOOD | SQ_EXCELLENT

datatype ReadinessLevel = RL_POOR | RL_COMPROMISED | RL_OK | RL_GOOD | RL_OPTIMAL

record SleepData =
  total_sleep_hours :: pyfloat
  sleep_quality :: SleepQuality
  sleep_score :: int

record HeartRateVariability =
  hrv_ms :: pyfloat

record RestingHeartRate =
  rhr_bpm :: int

record TrainingLoad =
  acute_load :: pyfloat
  chronic_load :: pyfloat
  acwr :: "pyfloat option"

record SubjectiveMetrics =
  motivation :: "int option"
  energy :: "int option"
  mood :: "int option"
  muscle_soreness :: "int option"

text \<open>
  A \<^verbatim>\<open>DailyMetrics\<close> aggregate, without the fields the scorer and the adapter never read
  (date, weather, temperature, creation time).
\<close>

record DailyMetrics =
  sleep :: "SleepData option"
  hrv :: "HeartRateVariability option"
  rhr :: "RestingHeartRate option"
  training_load :: "TrainingLoad option"
  subjective :: "SubjectiveMetrics option"
  calendar_busy_hours :: int
  available_time_slots :: "string list"
  recovery_score :: "pyfloat option"
  readiness_level :: "ReadinessLevel option"

text \<open>
  What the constructors validate (\<^verbatim>\<open>Field(..., ge=, le=, gt=, lt=)\<close>); a training-load
  record has no constraint on its loads or on \<^verbatim>\<open>acwr\<close>.
\<close>

definition in_range :: "int \<Rightarrow> int \<Rightarrow> int option \<Rightarrow> bool" where
  "in_range lo hi v = (case v of None \<Rightarrow> True | Some x \<Rightarrow> lo \<le> x \<and> x \<le> hi)"

definition valid_sleep :: "SleepData \<Rightarrow> bool" where
  "valid_sleep sd =
     (0 \<le> total_sleep_hours sd \<and> total_sleep_hours sd \<le> 24
      \<and> 0 \<le> sleep_score sd \<and> sleep_score sd \<le> 150)"

definition valid_hrv :: "HeartRateVariability \<Rightarrow> bool" where
  "valid_hrv h = (0 < hrv_ms h)"

definition valid_rhr :: "RestingHeartRate \<Rightarrow> bool" where
  "valid_rhr r = (30 < rhr_bpm r \<and> rhr_bpm r < 120)"

definition valid_subjective :: "SubjectiveMetrics \<Rightarrow> bool" where
  "valid_subjective sm =
     (in_range 1 5 (motivation sm) \<and> in_range 1 5 (energy sm)
      \<and> in_range 1 5 (mood sm) \<and> in_range 1 5 (muscle_soreness sm))"

definition valid_opt :: "('a \<Rightarrow> bool) \<Rightarrow> 'a option \<Rightarrow> bool" where
  "valid_opt P v = (case v of None \<Rightarrow> True | Some x \<Rightarrow> P x)"

definition valid_metrics :: "DailyMetrics \<Rightarrow> bool" where
  "valid_metrics m =
     (valid_opt valid_sleep (sleep m) \<and> valid_opt valid_hrv (hrv m)
      \<and> valid_opt valid_rhr (rhr m) \<and> valid_opt valid_subjective (subjective m)
      \<and> valid_opt (\<lambda>r. 0 \<le> r \<and> r \<le> 100) (recovery_score m))"

subsection \<open>Component scores\<close>

text \<open>Python truth of an optional number: \<^verbatim>\<open>None\<close> and zero are false.\<close>

definition truthy :: "'a::zero option \<Rightarrow> bool" where
  "truthy v = (case v of None \<Rightarrow> False | Some x \<Rightarrow> x \<noteq> 0)"

definition SleepData_get_normalized_score :: "SleepData \<Rightarrow> pyfloat" where
  "SleepData_get_normalized_score sd = min (of_int (sleep_score sd) / 100.0) 1.0"

definition HeartRateVariability_get_normalized_score ::
  "HeartRateVariability \<Rightarrow> pyfloat \<Rightarrow> pyfloat" where
  "HeartRateVariability_get_normalized_score h baseline_hrv =
     (if baseline_hrv = 0 then 0.5
      else let ratio = hrv_ms h / baseline_hrv in min 1.0 (max 0.0 ratio))"

definition RestingHeartRate_get_normalized_score ::
  "RestingHeartRate \<Rightarrow> int \<Rightarrow> error + pyfloat" where
  "RestingHeartRate_get_normalized_score r baseline_rhr =
     (if baseline_rhr = 0 then Inr 0.5
      else if rhr_bpm r = 0 then Inl ZeroDivisionError
      else let ratio = of_int baseline_rhr / of_int (rhr_bpm r)
           in Inr (min 1.0 (max 0.0 ratio)))"

text \<open>
  \<^verbatim>\<open>calculate_acwr\<close> returns the ratio and stores it, except on a zero chronic load,
  where it returns 1.0 and stores nothing.
\<close>

definition calculate_acwr :: "TrainingLoad \<Rightarrow> pyfloat \<times> TrainingLoad" where
  "calculate_acwr ld =
     (if chronic_load ld = 0 then (1.0, ld)
      else let ratio = acute_load ld / chronic_load ld;
               a = py_round ratio 2
           in (a, ld\<lparr>acwr := Some a\<rparr>))"

text \<open>
  Both readers of \<^verbatim>\<open>self.acwr\<close> first call \<^verbatim>\<open>calculate_acwr\<close> when the field is
  false, drop its result, and then compare the field with a float: the comparison raises
  \<^verbatim>\<open>TypeError\<close> when the field is still \<^verbatim>\<open>None\<close>.
\<close>

definition ensure_acwr :: "TrainingLoad \<Rightarrow> TrainingLoad" where
  "ensure_acwr ld = (if \<not> truthy (acwr ld) then snd (calculate_acwr ld) else ld)"

datatype fatigue_status = SousEntraine | ZoneOptimale | FatigueLegere | SurchargeImportante

definition get_fatigue_status :: "TrainingLoad \<Rightarrow> error + fatigue_status \<times> TrainingLoad" where
  "get_fatigue_status ld =
     (let ld1 = ensure_acwr ld
      in case acwr ld1 of
           None \<Rightarrow> Inl TypeError
         | Some a \<Rightarrow>
             Inr (if a < 0.8 then SousEntraine
                  else if 0.8 \<le> a \<and> a \<le> 1.3 then ZoneOptimale
                  else if 1.3 < a \<and> a \<le> 1.5 then FatigueLegere
                  else SurchargeImportante, ld1))"

definition TrainingLoad_get_normalized_score ::
  "TrainingLoad \<Rightarrow> error + pyfloat \<times> TrainingLoad" where
  "TrainingLoad_get_normalized_score ld =
     (let ld1 = ensure_acwr ld
      in case acwr ld1 of
           None \<Rightarrow> Inl TypeError
         | Some a \<Rightarrow>
             Inr (if 0.8 \<le> a \<and> a \<le> 1.3 then 1.0
                  else if a < 0.8 then max 0.0 (a / 0.8)
                  else max 0.0 (1.0 - (a - 1.3) / 0.7), ld1))"

definition sub_score :: "int option \<Rightarrow> (int \<Rightarrow> pyfloat) \<Rightarrow> pyfloat list" where
  "sub_score v f = (if truthy v then [f (the v)] else [])"

definition SubjectiveMetrics_get_normalized_score :: "SubjectiveMetrics \<Rightarrow> pyfloat" where
  "SubjectiveMetrics_get_normalized_score sm =
     (let scores =
            sub_score (motivation sm) (\<lambda>v. of_int v / 5)
            @ sub_score (energy sm) (\<lambda>v. of_int v / 5)
            @ sub_score (mood sm) (\<lambda>v. of_int v / 5)
            @ sub_score (muscle_soreness sm) (\<lambda>v. 1 - (of_int v - 1) / 4)
      in if scores = [] then 0.5
         else sum_list scores / of_nat (length scores))"

subsection \<open>The recovery score\<close>

datatype component = Sleep | Hrv | Load | Rhr | Subjective

text \<open>
  The weights are a dictionary from the five component keys; reading a key it does not
  have raises \<^verbatim>\<open>KeyError\<close>.
\<close>

definition default_weights :: "component \<rightharpoonup> pyfloat" where
  "default_weights =
     [Sleep \<mapsto> 0.35, Hrv \<mapsto> 0.25, Load \<mapsto> 0.20, Rhr \<mapsto> 0.10, Subjective \<mapsto> 0.10]"

fun sum_weights :: "(component \<rightharpoonup> pyfloat) \<Rightarrow> (component \<times> pyfloat) list \<Rightarrow> error + pyfloat" where
  "sum_weights weights [] = Inr 0"
| "sum_weights weights ((k, v) # cs) =
     (case weights k of
        None \<Rightarrow> Inl KeyError
      | Some w \<Rightarrow>
          (case sum_weights weights cs of
             Inl e \<Rightarrow> Inl e
           | Inr t \<Rightarrow> Inr (w + t)))"

fun sum_weighted :: "(component \<rightharpoonup> pyfloat) \<Rightarrow> (component \<times> pyfloat) list \<Rightarrow> error + pyfloat" where
  "sum_weighted weights [] = Inr 0"
| "sum_weighted weights ((k, v) # cs) =
     (case weights k of
        None \<Rightarrow> Inl KeyError
      | Some w \<Rightarrow>
          (case sum_weighted weights cs of
             Inl e \<Rightarrow> Inl e
           | Inr t \<Rightarrow> Inr (v * w + t)))"

definition readiness_of :: "pyfloat \<Rightarrow> ReadinessLevel" where
  "readiness_of score =
     (if 85 \<le> score then RL_OPTIMAL
      else if 70 \<le> score then RL_GOOD
      else if 55 \<le> score then RL_OK
      else if 40 \<le> score then RL_COMPROMISED
      else RL_POOR)"

text \<open>
  The components present, in the order the source fills its dictionary, together with the
  aggregate after the training-load reader has run.
\<close>

definition collect_components ::
  "pyfloat \<Rightarrow> int \<Rightarrow> DailyMetrics \<Rightarrow> error + (component \<times> pyfloat) list \<times> DailyMetrics" where
  "collect_components baseline_hrv baseline_rhr m =
     (let c_sleep = (case sleep m of None \<Rightarrow> []
                     | Some sd \<Rightarrow> [(Sleep, SleepData_get_normalized_score sd)]);
          c_hrv = (case hrv m of None \<Rightarrow> []
                   | Some h \<Rightarrow> [(Hrv, HeartRateVariability_get_normalized_score h baseline_hrv)])
      in case (case training_load m of
                 None \<Rightarrow> Inr ([], m)
               | Some ld \<Rightarrow>
                   (case TrainingLoad_get_normalized_score ld of
                      Inl e \<Rightarrow> Inl e
                    | Inr (v, ld1) \<Rightarrow> Inr ([(Load, v)], m\<lparr>training_load := Some ld1\<rparr>))) of
           Inl e \<Rightarrow> Inl e
         | Inr (c_load, m1) \<Rightarrow>
             (case (case rhr m1 of
                      None \<Rightarrow> Inr []
                    | Some r \<Rightarrow>
                        (case RestingHeartRate_get_normalized_score r baseline_rhr of
                           Inl e \<Rightarrow> Inl e
                         | Inr v \<Rightarrow> Inr [(Rhr, v)])) of
                Inl e \<Rightarrow> Inl e
              | Inr c_rhr \<Rightarrow>
                  (let c_subj = (case subjective m1 of None \<Rightarrow> []
                                 | Some sm \<Rightarrow>
                                     [(Subjective, SubjectiveMetrics_get_normalized_score sm)])
                   in Inr (c_sleep @ c_hrv @ c_load @ c_rhr @ c_subj, m1))))"

definition calculate_recovery_score_with ::
  "(component \<rightharpoonup> pyfloat) \<Rightarrow> pyfloat \<Rightarrow> int \<Rightarrow> DailyMetrics \<Rightarrow> error + pyfloat \<times> DailyMetrics" where
  "calculate_recovery_score_with weights baseline_hrv baseline_rhr m =
     (case collect_components baseline_hrv baseline_rhr m of
        Inl e \<Rightarrow> Inl e
      | Inr (components, m1) \<Rightarrow>
          (case sum_weights weights components of
             Inl e \<Rightarrow> Inl e
           | Inr total_weight \<Rightarrow>
               (case (if total_weight = 0 then Inr 50.0
                      else (case sum_weighted weights components of
                              Inl e \<Rightarrow> Inl e
                            | Inr score \<Rightarrow> Inr (py_round ((score / total_weight) * 100) 1))) of
                  Inl e \<Rightarrow> Inl e
                | Inr r \<Rightarrow>
                    Inr (r, m1\<lparr>recovery_score := Some r,
                              readiness_level := Some (readiness_of r)\<rparr>))))"

text \<open>The call with every default argument.\<close>

definition calculate_recovery_score :: "DailyMetrics \<Rightarrow> error + pyfloat \<times> DailyMetrics" where
  "calculate_recovery_score m = calculate_recovery_score_with default_weights 50.0 50 m"

definition has_available_time :: "DailyMetrics \<Rightarrow> int \<Rightarrow> bool" where
  "has_available_time m required_minutes =
     (let available_hours = 24 - calendar_busy_hours m - 8
      in required_minutes \<le> available_hours * 60)"

section \<open>The session adapter (core/session_adapter.py)\<close>

text \<open>
  The evidence strings appended to \<^verbatim>\<open>details\<close>, one constructor for each f-string of
  the source with the values it formats.
\<close>

datatype detail =
  RecoveryScoreLine pyfloat "ReadinessLevel option"
  | SleepLine pyfloat SleepQuality
  | HrvLine pyfloat
  | AcwrLine pyfloat fatigue_status
  | NoAvailabilityData
  | SlotsAvailable nat
  | SlotsLimited int
  | TwoIntenseIn48h
  | OneIntenseRecently

record AdaptationRecommendation =
  action :: AdaptationAction
  reason_text :: reason
  details :: "detail list"
  modified_session :: "TrainingSession option"
  confidence :: pyfloat

definition analyze_recovery ::
  "pyfloat \<Rightarrow> DailyMetrics \<Rightarrow> detail list \<Rightarrow> error + pyfloat \<times> detail list \<times> DailyMetrics" where
  "analyze_recovery score metrics ds =
     (let ds1 = ds @ [RecoveryScoreLine score (readiness_level metrics)];
          ds2 = (case sleep metrics of None \<Rightarrow> ds1
                 | Some sd \<Rightarrow> ds1 @ [SleepLine (total_sleep_hours sd) (sleep_quality sd)]);
          ds3 = (case hrv metrics of None \<Rightarrow> ds2
                 | Some h \<Rightarrow> ds2 @ [HrvLine (hrv_ms h)])
      in case training_load metrics of
           None \<Rightarrow> Inr (score / 100.0, ds3, metrics)
         | Some ld \<Rightarrow>
             if truthy (acwr ld)
             then (case get_fatigue_status ld of
                     Inl e \<Rightarrow> Inl e
                   | Inr (st, ld1) \<Rightarrow>
                       Inr (score / 100.0, ds3 @ [AcwrLine (the (acwr ld)) st],
                            metrics\<lparr>training_load := Some ld1\<rparr>))
             else Inr (score / 100.0, ds3, metrics))"

definition analyze_availability ::
  "TrainingSession \<Rightarrow> DailyMetrics \<Rightarrow> detail list \<Rightarrow> pyfloat \<times> detail list" where
  "analyze_availability session metrics ds =
     (if available_time_slots metrics = [] then (0.5, ds @ [NoAvailabilityData])
      else let has_time = has_available_time metrics (duration_minutes session + 30)
           in if has_time
              then (1.0, ds @ [SlotsAvailable (length (available_time_slots metrics))])
              else (0.3, ds @ [SlotsLimited (calendar_busy_hours metrics)]))"

definition analyze_training_load ::
  "DailyMetrics \<Rightarrow> TrainingSession list option \<Rightarrow> detail list \<Rightarrow> pyfloat" where
  "analyze_training_load metrics recent_sessions ds =
     (case training_load metrics of
        None \<Rightarrow> 0.7
      | Some ld \<Rightarrow>
          if \<not> truthy (acwr ld) then 0.7
          else let a = the (acwr ld)
               in if ACWR_OPTIMAL_MIN \<le> a \<and> a \<le> ACWR_OPTIMAL_MAX then 1.0
                  else if a < ACWR_OPTIMAL_MIN then 0.9
                  else if a \<le> 1.5 then 0.6
                  else 0.3)"

text \<open>
  \<^verbatim>\<open>_analyze_sequence\<close> reads the clock (\<^verbatim>\<open>datetime.now()\<close>); the value read is the
  first argument.
\<close>

definition in_last_48h :: "datetime \<Rightarrow> TrainingSession \<Rightarrow> bool" where
  "in_last_48h now s =
     (case completed_at s of
        None \<Rightarrow> False
      | Some t \<Rightarrow> timedelta_days now t \<le> 2)"

definition analyze_sequence ::
  "datetime \<Rightarrow> TrainingSession \<Rightarrow> TrainingSession list option \<Rightarrow> TrainingSession list option
     \<Rightarrow> detail list \<Rightarrow> pyfloat \<times> detail list" where
  "analyze_sequence now session recent_sessions upcoming_sessions ds =
     (case recent_sessions of
        None \<Rightarrow> (1.0, ds)
      | Some recent \<Rightarrow>
          if recent = [] then (1.0, ds)
          else let last_48h = filter (in_last_48h now) recent;
                   intense_recent =
                     length (filter (\<lambda>s. intensity s \<in> {HARD, VERY_HARD}) last_48h)
               in if 2 \<le> intense_recent \<and> intensity session \<in> {HARD, VERY_HARD}
                  then (0.4, ds @ [TwoIntenseIn48h])
                  else if intense_recent = 1 \<and> intensity session = VERY_HARD
                  then (0.7, ds @ [OneIntenseRecently])
                  else (1.0, ds))"

definition calculate_confidence :: "DailyMetrics \<Rightarrow> pyfloat" where
  "calculate_confidence metrics =
     (let p1 = (if sleep metrics \<noteq> None then 1 else 0 :: int);
          p2 = p1 + (if hrv metrics \<noteq> None then 1 else 0);
          p3 = p2 + (if training_load metrics \<noteq> None then 1 else 0);
          p4 = p3 + (if available_time_slots metrics \<noteq> [] then 1 else 0);
          p5 = p4 + (if subjective metrics \<noteq> None then 1 else 0)
      in of_int p5 / 5)"

text \<open>
  \<^verbatim>\<open>adapt_session(session, metrics, upcoming_sessions, recent_sessions)\<close>. The aggregate
  is mutated by the scorer, so the result carries it too. \<open>effective_score\<close> is the
  expression \<^verbatim>\<open>metrics.recovery_score or 50.0\<close>. The function is split at its own
  comments: \<open>analyze_factors\<close> is steps 1 and 2 (score, then the four analyzers) and
  returns the score, the factors in the order (recovery, availability, load, sequence),
  the evidence list and the aggregate; \<open>adapt_session\<close> adds steps 3 and 4.
\<close>

definition effective_score :: "DailyMetrics \<Rightarrow> pyfloat" where
  "effective_score metrics =
     (if truthy (recovery_score metrics) then the (recovery_score metrics) else 50.0)"

type_synonym factors = "pyfloat \<times> pyfloat \<times> pyfloat \<times> pyfloat \<times> pyfloat"

definition analyze_factors ::
  "datetime \<Rightarrow> TrainingSession \<Rightarrow> DailyMetrics \<Rightarrow> TrainingSession list option
     \<Rightarrow> TrainingSession list option \<Rightarrow> error + factors \<times> detail list \<times> DailyMetrics" where
  "analyze_factors now session metrics upcoming_sessions recent_sessions =
     (case (if recovery_score metrics = None
            then (case calculate_recovery_score metrics of
                    Inl e \<Rightarrow> Inl e
                  | Inr (r, m1) \<Rightarrow> Inr m1)
            else Inr metrics) of
        Inl e \<Rightarrow> Inl e
      | Inr m1 \<Rightarrow>
          (let score = effective_score m1
           in case analyze_recovery score m1 [] of
                Inl e \<Rightarrow> Inl e
              | Inr (recovery_factor, ds1, m2) \<Rightarrow>
                  (let (availability_factor, ds2) = analyze_availability session m2 ds1;
                       load_factor = analyze_training_load m2 recent_sessions ds2;
                       (sequence_factor, ds3) =
                         analyze_sequence now session recent_sessions upcoming_sessions ds2
                   in Inr ((score, recovery_factor, availability_factor, load_factor,
                            sequence_factor), ds3, m2))))"

definition adapt_session ::
  "datetime \<Rightarrow> TrainingSession \<Rightarrow> DailyMetrics \<Rightarrow> TrainingSession list option
     \<Rightarrow> TrainingSession list option \<Rightarrow> error + AdaptationRecommendation \<times> DailyMetrics" where
  "adapt_session now session metrics upcoming_sessions recent_sessions =
     (case analyze_factors now session metrics upcoming_sessions recent_sessions of
        Inl e \<Rightarrow> Inl e
      | Inr ((score, recovery_factor, availability_factor, load_factor, sequence_factor),
             ds, m2) \<Rightarrow>
          (let (act, rsn, modified) =
                 decide_action RECOVERY_THRESHOLDS session score recovery_factor
                   availability_factor load_factor sequence_factor
           in Inr (\<lparr>action = act, reason_text = rsn, details = ds,
                     modified_session = modified,
                     confidence = calculate_confidence m2\<rparr>, m2)))"

text \<open>
  \<^verbatim>\<open>quick_adapt(session, recovery_score, has_time)\<close>. The constructor of the aggregate
  validates \<^verbatim>\<open>recovery_score\<close> (\<^verbatim>\<open>ge=0, le=100\<close>); the readiness level is assigned
  afterwards.
\<close>

definition quick_metrics :: "pyfloat \<Rightarrow> bool \<Rightarrow> DailyMetrics" where
  "quick_metrics score has_time =
     \<lparr>sleep = None, hrv = None, rhr = None, training_load = None, subjective = None,
      calendar_busy_hours = 0,
      available_time_slots = (if has_time then [''18:00-20:00''] else []),
      recovery_score = Some score,
      readiness_level = Some (readiness_of score)\<rparr>"

definition quick_adapt ::
  "datetime \<Rightarrow> TrainingSession \<Rightarrow> pyfloat \<Rightarrow> bool \<Rightarrow> error + AdaptationRecommendation" where
  "quick_adapt now session score has_time =
     (if 0 \<le> score \<and> score \<le> 100
      then (case adapt_session now session (quick_metrics score has_time) None None of
              Inl e \<Rightarrow> Inl e
            | Inr (rec, m) \<Rightarrow> Inr rec)
      else Inl ValidationError)"

section \<open>The example sessions of models/session.py\<close>

text \<open>
  \<^verbatim>\<open>EXAMPLE_SESSIONS\<close>, with their texts as UTF-8 bytes. They serve as concrete inputs.
\<close>

definition a_grave :: string where
  "a_grave = [CHR 0xC3, CHR 0xA0]"

definition E_acute :: string where
  "E_acute = [CHR 0xC3, CHR 0x89]"

definition plain_zone :: "string \<Rightarrow> int \<Rightarrow> string \<Rightarrow> PaceZone" where
  "plain_zone d n p =
     \<lparr>z_description = d, z_duration_minutes = Some n, z_distance_km = None,
      pace_min_per_km = p, pace_max_per_km = None, hr_zone = None,
      repetitions = 1, recovery_minutes = None\<rparr>"

definition endurance_60 :: TrainingSession where
  "endurance_60 =
     \<lparr>session_id = ''E60'', session_type = ENDURANCE, intensity = EASY,
      title = ''Endurance 60min'',
      description = ''Course '' @ a_grave @ '' allure conversationnelle, 75-80% FCmax'',
      duration_minutes = 60, distance_km = Some 10.0,
      zones = [(plain_zone ''Endurance fondamentale'' 60 ''6:00'')
                 \<lparr>pace_max_per_km := Some ''6:15'', hr_zone := Some ''75-80% FCmax''\<rparr>],
      status = PLANNED, adaptation_reason = None, is_key_session = False,
      can_be_postponed = True, can_be_replaced = True, completed_at = None\<rparr>"

definition threshold_3x10 :: TrainingSession where
  "threshold_3x10 =
     \<lparr>session_id = ''T3x10'', session_type = THRESHOLD, intensity = HARD,
      title = ''Seuil 3x10min'',
      description = ''3 blocs de 10min '' @ a_grave @ '' allure semi, r'' @ e_acute
                    @ ''cup 2min trot'',
      duration_minutes = 60, distance_km = Some 12.0,
      zones = [(plain_zone (E_acute @ ''chauffement'') 15 ''6:00'')
                 \<lparr>hr_zone := Some ''70-75% FCmax''\<rparr>,
               (plain_zone ''Bloc seuil'' 10 ''4:55'')
                 \<lparr>pace_max_per_km := Some ''5:00'', hr_zone := Some ''87-92% FCmax'',
                  repetitions := 3, recovery_minutes := Some 2\<rparr>,
               plain_zone ''Retour au calme'' 10 ''6:15''],
      status = PLANNED, adaptation_reason = None, is_key_session = True,
      can_be_postponed = True, can_be_replaced = True, completed_at = None\<rparr>"

definition vma_10x400 :: TrainingSession where
  "vma_10x400 =
     \<lparr>session_id = ''VMA10x400'', session_type = INTERVALS, intensity = VERY_HARD,
      title = ''VMA 10x400m'',
      description = ''10 r'' @ e_acute @ ''p'' @ e_acute @ ''titions de 400m '' @ a_grave
                    @ '' VMA, r'' @ e_acute @ ''cup 1min30 trot'',
      duration_minutes = 55, distance_km = Some 9.0,
      zones = [plain_zone (E_acute @ ''chauffement'') 15 ''6:00'',
               \<lparr>z_description = ''400m VMA'', z_duration_minutes = None,
                z_distance_km = Some 0.4, pace_min_per_km = ''3:30'',
                pace_max_per_km = None, hr_zone = Some ''95-100% FCmax'',
                repetitions = 10, recovery_minutes = Some 1.5\<rparr>,
               plain_zone ''Retour au calme'' 10 ''6:30''],
      status = PLANNED, adaptation_reason = None, is_key_session = True,
      can_be_postponed = True, can_be_replaced = True, completed_at = None\<rparr>"

section \<open>The specification's reading of the decision ladder\<close>


text \<open>The harshness order on actions: postponing and cancelling share the top rank.\<close>

definition harshness :: "AdaptationAction \<Rightarrow> nat" where
  "harshness a =
     (case a of MAINTAIN \<Rightarrow> 0 | MONITOR \<Rightarrow> 1 | REDUCE \<Rightarrow> 2 | REPLACE \<Rightarrow> 3
      | POSTPONE \<Rightarrow> 4 | CANCEL \<Rightarrow> 4)"

section \<open>Metrics used as concrete inputs\<close>

text \<open>
  A \<^verbatim>\<open>TrainingLoad\<close> built with its field defaults, as the wearable service builds
  one on a day without recorded activity, and a \<^verbatim>\<open>DailyMetrics\<close> with every optional
  field at its default.
\<close>

definition default_load :: TrainingLoad where
  "default_load = \<lparr>acute_load = 0.0, chronic_load = 0.0, acwr = None\<rparr>"

definition empty_metrics :: DailyMetrics where
  "empty_metrics =
     \<lparr>sleep = None, hrv = None, rhr = None, training_load = None, subjective = None,
      calendar_busy_hours = 0, available_time_slots = [], recovery_score = None,
      readiness_level = None\<rparr>"

definition load_only_metrics :: DailyMetrics where
  "load_only_metrics = empty_metrics\<lparr>training_load := Some default_load\<rparr>"



text \<open>
  The aggregate of the specification's second scenario: four hours of sleep scored 30, no
  HRV, no resting heart rate, a training load with ACWR 1.8, no subjective record. The
  sleep quality label, the two loads, the busy hours and the free slots are left open.
\<close>

definition scenario2_metrics ::
  "SleepQuality \<Rightarrow> pyfloat \<Rightarrow> pyfloat \<Rightarrow> int \<Rightarrow> string list \<Rightarrow> DailyMetrics" where
  "scenario2_metrics q acute chronic busy slots =
     \<lparr>sleep = Some \<lparr>total_sleep_hours = 4.0, sleep_quality = q, sleep_score = 30\<rparr>,
      hrv = None, rhr = None,
      training_load = Some \<lparr>acute_load = acute, chronic_load = chronic, acwr = Some 1.8\<rparr>,
      subjective = None,
      calendar_busy_hours = busy, available_time_slots = slots,
      recovery_score = None, readiness_level = None\<rparr>"

text \<open>
  Two intense sessions completed at time 0, and the clock sixty hours later.
\<close>

definition completed_intense :: "TrainingSession list" where
  "completed_intense =
     [threshold_3x10\<lparr>status := COMPLETED, completed_at := Some 0\<rparr>,
      vma_10x400\<lparr>status := COMPLETED, completed_at := Some 0\<rparr>]"

definition sixty_hours :: datetime where
  "sixty_hours = 60 * 3600 * 1000000"

section \<open>The specification's reading of the scorer, the mutator and the sequence analyzer\<close>

text \<open>
  What \<^verbatim>\<open>adapt_session\<close> computes on the way: the composite score it hands to the
  ladder, and the action it returns.
\<close>

definition session_composite ::
  "datetime \<Rightarrow> TrainingSession \<Rightarrow> DailyMetrics \<Rightarrow> TrainingSession list option
     \<Rightarrow> TrainingSession list option \<Rightarrow> error + pyfloat" where
  "session_composite now session metrics upcoming_sessions recent_sessions =
     (case analyze_factors now session metrics upcoming_sessions recent_sessions of
        Inl e \<Rightarrow> Inl e
      | Inr ((score, recovery_factor, availability_factor, load_factor, sequence_factor),
             ds, m) \<Rightarrow>
          Inr (composite_score recovery_factor load_factor sequence_factor
                 availability_factor))"

definition adapt_action ::
  "datetime \<Rightarrow> TrainingSession \<Rightarrow> DailyMetrics \<Rightarrow> TrainingSession list option
     \<Rightarrow> TrainingSession list option \<Rightarrow> error + AdaptationAction" where
  "adapt_action now session metrics upcoming_sessions recent_sessions =
     (case adapt_session now session metrics upcoming_sessions recent_sessions of
        Inl e \<Rightarrow> Inl e
      | Inr (rec, m) \<Rightarrow> Inr (action rec))"


text \<open>
  The recovery score as the specification words it: the components present with their
  normalized scores, the weights of the specification, the weighted mean times 100
  (\<open>spec_unrounded\<close>), and the same rounded to one decimal (\<open>spec_recovery_score\<close>).
  \<open>acwr_usable\<close> says that the training-load record has a ratio to score: one that is
  stored and not zero, or loads from which it can be computed.
\<close>

definition spec_weight :: "component \<Rightarrow> pyfloat" where
  "spec_weight k =
     (case k of Sleep \<Rightarrow> 0.35 | Hrv \<Rightarrow> 0.25 | Load \<Rightarrow> 0.20 | Rhr \<Rightarrow> 0.10 | Subjective \<Rightarrow> 0.10)"

definition acwr_usable :: "TrainingLoad \<Rightarrow> bool" where
  "acwr_usable ld = (truthy (acwr ld) \<or> chronic_load ld \<noteq> 0)"

definition acwr_value :: "TrainingLoad \<Rightarrow> pyfloat" where
  "acwr_value ld =
     (if truthy (acwr ld) then the (acwr ld) else py_round (acute_load ld / chronic_load ld) 2)"

definition triangular :: "pyfloat \<Rightarrow> pyfloat" where
  "triangular a =
     (if 0.8 \<le> a \<and> a \<le> 1.3 then 1
      else if a < 0.8 then max 0 (a / 0.8)
      else max 0 (1 - (a - 1.3) / 0.7))"

definition clamp01 :: "pyfloat \<Rightarrow> pyfloat" where
  "clamp01 x = min 1 (max 0 x)"

definition present_scores :: "DailyMetrics \<Rightarrow> (component \<times> pyfloat) list" where
  "present_scores m =
     (case sleep m of None \<Rightarrow> []
      | Some sd \<Rightarrow> [(Sleep, min (of_int (sleep_score sd) / 100) 1)])
     @ (case hrv m of None \<Rightarrow> [] | Some h \<Rightarrow> [(Hrv, clamp01 (hrv_ms h / 50))])
     @ (case training_load m of None \<Rightarrow> [] | Some ld \<Rightarrow> [(Load, triangular (acwr_value ld))])
     @ (case rhr m of None \<Rightarrow> [] | Some r \<Rightarrow> [(Rhr, clamp01 (50 / of_int (rhr_bpm r)))])
     @ (case subjective m of None \<Rightarrow> []
        | Some sm \<Rightarrow> [(Subjective, SubjectiveMetrics_get_normalized_score sm)])"

definition spec_unrounded :: "DailyMetrics \<Rightarrow> pyfloat" where
  "spec_unrounded m =
     (let cs = present_scores m
      in if cs = [] then 50
         else (\<Sum>(k, v) \<leftarrow> cs. spec_weight k * v) / (\<Sum>(k, v) \<leftarrow> cs. spec_weight k) * 100)"

definition spec_recovery_score :: "DailyMetrics \<Rightarrow> pyfloat" where
  "spec_recovery_score m =
     (if present_scores m = [] then 50 else py_round (spec_unrounded m) 1)"

definition spec_tier :: "pyfloat \<Rightarrow> ReadinessLevel" where
  "spec_tier score =
     (if 85 \<le> score then RL_OPTIMAL else if 70 \<le> score then RL_GOOD
      else if 55 \<le> score then RL_OK else if 40 \<le> score then RL_COMPROMISED else RL_POOR)"

text \<open>The aggregate after scoring: the ratio stored, the score and the tier cached.\<close>

definition scored :: "DailyMetrics \<Rightarrow> DailyMetrics" where
  "scored m =
     m\<lparr>training_load := map_option ensure_acwr (training_load m),
       recovery_score := Some (spec_recovery_score m),
       readiness_level := Some (spec_tier (spec_recovery_score m))\<rparr>"

text \<open>
  The sequence factor as the specification words it: only sessions completed within the
  48 hours before the evaluation time count.
\<close>

definition within_48h :: "datetime \<Rightarrow> TrainingSession \<Rightarrow> bool" where
  "within_48h now s =
     (case completed_at s of
        None \<Rightarrow> False
      | Some t \<Rightarrow> t \<le> now \<and> now - t \<le> 48 * 3600 * 1000000)"

definition spec_sequence_factor ::
  "datetime \<Rightarrow> TrainingSession \<Rightarrow> TrainingSession list option \<Rightarrow> pyfloat" where
  "spec_sequence_factor now session recent_sessions =
     (let recent = (case recent_sessions of None \<Rightarrow> [] | Some r \<Rightarrow> r);
          n = length (filter (\<lambda>s. within_48h now s
                                  \<and> (intensity s = HARD \<or> intensity s = VERY_HARD)) recent)
      in if 2 \<le> n \<and> (intensity session = HARD \<or> intensity session = VERY_HARD) then 0.4
         else if n = 1 \<and> intensity session = VERY_HARD then 0.7
         else 1.0)"

text \<open>
  The availability factor of the aggregate built by \<^verbatim>\<open>quick_adapt\<close>: one slot and no
  busy hour with the flag, which leaves 16 hours, 960 minutes; no slot without it.
\<close>

definition quick_availability :: "TrainingSession \<Rightarrow> bool \<Rightarrow> pyfloat" where
  "quick_availability s has_time =
     (if has_time then (if duration_minutes s \<le> 930 then 1.0 else 0.3) else 0.5)"

section \<open>Verified properties\<close>


text \<open>
  Claim C8. Of two sessions that differ only in the key-session flag, under the same
  factors, the key session never receives a harsher action than the other one.
\<close>

theorem key_session_never_harsher:
  "harshness (fst (decide_action RECOVERY_THRESHOLDS (session\<lparr>is_key_session := True\<rparr>)
                     score recovery availability load sequence))
   \<le> harshness (fst (decide_action RECOVERY_THRESHOLDS (session\<lparr>is_key_session := False\<rparr>)
                       score recovery availability load sequence))"
  by (simp add: decide_action_def RECOVERY_THRESHOLDS_def Let_def harshness_def)

text \<open>
  Claim C9. The availability factor is 0.5 when the aggregate has no free time slot;
  otherwise it is 1.0 when (24 - busy hours - 8) * 60 is at least the session's duration
  plus 30 minutes, and 0.3 when it is not.
\<close>

theorem availability_factor_cases:
  "fst (analyze_availability session metrics ds) =
     (if available_time_slots metrics = [] then 0.5
      else if duration_minutes session + 30 \<le> (24 - calendar_busy_hours metrics - 8) * 60
      then 1.0 else 0.3)"
  by (simp add: analyze_availability_def has_available_time_def Let_def)

subsection \<open>Lightening a session\<close>





lemma lighten_session_duration:
  "duration_minutes (lighten_session s r) = py_int (of_int (duration_minutes s) * r)"
  by (simp add: lighten_session_def Let_def split: option.splits)





text \<open>
  Claim C7 (every session produced by the core has a positive duration) is broken by the
  code: a valid session of one minute is lightened to zero minutes by both factors and
  replaced by an easy session of zero minutes, and the convenience entry point returns
  such a session at recovery score 10.
\<close>

theorem duration_can_reach_zero:
  "valid_session (endurance_60\<lparr>duration_minutes := 1\<rparr>)
   \<and> duration_minutes (lighten_session (endurance_60\<lparr>duration_minutes := 1\<rparr>) 0.75) = 0
   \<and> duration_minutes (lighten_session (endurance_60\<lparr>duration_minutes := 1\<rparr>) 0.6) = 0
   \<and> duration_minutes (replace_with_easy (endurance_60\<lparr>duration_minutes := 1\<rparr>)) = 0
   \<and> (case quick_adapt 0 (endurance_60\<lparr>duration_minutes := 1\<rparr>) 10 True of
         Inl e \<Rightarrow> None
       | Inr rec \<Rightarrow> map_option duration_minutes (modified_session rec)) = Some 0"
  by (simp add: valid_session_def lighten_session_duration py_int_def replace_with_easy_def
      Let_def quick_adapt_def adapt_session_def analyze_factors_def quick_metrics_def
      effective_score_def truthy_def analyze_recovery_def analyze_availability_def
      has_available_time_def analyze_training_load_def analyze_sequence_def
      decide_action_def composite_score_def RECOVERY_THRESHOLDS_def endurance_60_def)

subsection \<open>The recovery score\<close>

text \<open>
  Claim C4 (no constructible aggregate makes the scorer or the adapter raise) is broken by
  the code: on a training-load record with chronic load 0 and no stored ratio,
  \<^verbatim>\<open>calculate_acwr\<close> returns 1.0 without storing it, and the comparison that follows
  raises \<^verbatim>\<open>TypeError\<close>, in the scorer and so in the adapter.
\<close>

theorem unset_acwr_raises:
  "valid_metrics load_only_metrics
   \<and> calculate_recovery_score load_only_metrics = Inl TypeError
   \<and> adapt_session 0 endurance_60 load_only_metrics None None = Inl TypeError"
  by (simp add: valid_metrics_def valid_opt_def load_only_metrics_def empty_metrics_def
      default_load_def calculate_recovery_score_def calculate_recovery_score_with_def
      collect_components_def TrainingLoad_get_normalized_score_def ensure_acwr_def
      calculate_acwr_def truthy_def adapt_session_def analyze_factors_def Let_def)

lemma load_score_ok:
  "acwr_usable ld \<Longrightarrow>
   TrainingLoad_get_normalized_score ld = Inr (triangular (acwr_value ld), ensure_acwr ld)"
  by (cases "acwr ld")
     (auto simp: TrainingLoad_get_normalized_score_def acwr_usable_def acwr_value_def
       triangular_def ensure_acwr_def calculate_acwr_def truthy_def Let_def)

lemma rhr_score_ok:
  "valid_rhr r \<Longrightarrow>
   RestingHeartRate_get_normalized_score r 50 = Inr (clamp01 (50 / of_int (rhr_bpm r)))"
  by (simp add: RestingHeartRate_get_normalized_score_def valid_rhr_def clamp01_def Let_def)

lemma collect_components_ok:
  assumes "valid_opt valid_rhr (rhr m)" and "valid_opt acwr_usable (training_load m)"
  shows "collect_components 50 50 m
         = Inr (present_scores m, m\<lparr>training_load := map_option ensure_acwr (training_load m)\<rparr>)"
proof -
  have ld: "\<And>ld. training_load m = Some ld \<Longrightarrow>
      TrainingLoad_get_normalized_score ld = Inr (triangular (acwr_value ld), ensure_acwr ld)"
    using assms(2) by (auto simp: valid_opt_def intro: load_score_ok)
  have r: "\<And>r. rhr m = Some r \<Longrightarrow>
      RestingHeartRate_get_normalized_score r 50 = Inr (clamp01 (50 / of_int (rhr_bpm r)))"
    using assms(1) by (auto simp: valid_opt_def intro: rhr_score_ok)
  show ?thesis
    by (cases "training_load m"; cases "rhr m")
       (simp_all add: collect_components_def present_scores_def ld r Let_def
         SleepData_get_normalized_score_def HeartRateVariability_get_normalized_score_def
         clamp01_def split: option.splits)
qed

lemma default_weights_lookup: "default_weights k = Some (spec_weight k)"
  by (cases k) (simp_all add: default_weights_def spec_weight_def)

lemma sum_weights_default:
  "sum_weights default_weights cs = Inr (\<Sum>(k, v) \<leftarrow> cs. spec_weight k)"
  by (induction cs) (auto simp: default_weights_lookup)

lemma sum_weighted_default:
  "sum_weighted default_weights cs = Inr (\<Sum>(k, v) \<leftarrow> cs. spec_weight k * v)"
  by (induction cs) (auto simp: default_weights_lookup mult.commute)

lemma spec_weight_pos: "0 < spec_weight k"
  by (cases k) (simp_all add: spec_weight_def)

lemma total_weight_pos: "cs \<noteq> [] \<Longrightarrow> 0 < (\<Sum>(k, v) \<leftarrow> cs. spec_weight k)"
proof (induction cs)
  case Nil
  then show ?case by simp
next
  case (Cons c cs)
  obtain k v where c: "c = (k, v)" by (cases c)
  have "0 \<le> (\<Sum>(k, v) \<leftarrow> cs. spec_weight k)"
    by (rule sum_list_nonneg) (auto simp: less_imp_le spec_weight_pos)
  with spec_weight_pos [of k] show ?case by (simp add: c)
qed

lemma calculate_recovery_score_spec:
  assumes "valid_opt valid_rhr (rhr m)" and "valid_opt acwr_usable (training_load m)"
  shows "calculate_recovery_score m = Inr (spec_recovery_score m, scored m)"
proof (cases "present_scores m = []")
  case True
  then show ?thesis
    by (simp add: calculate_recovery_score_def calculate_recovery_score_with_def
        collect_components_ok [OF assms] spec_recovery_score_def scored_def
        readiness_of_def spec_tier_def)
next
  case False
  then have "(\<Sum>(k, v) \<leftarrow> present_scores m. spec_weight k) \<noteq> 0"
    using total_weight_pos [of "present_scores m"] by simp
  with False show ?thesis
    by (simp add: calculate_recovery_score_def calculate_recovery_score_with_def
        collect_components_ok [OF assms] sum_weights_default sum_weighted_default
        spec_recovery_score_def spec_unrounded_def scored_def readiness_of_def spec_tier_def
        Let_def)
qed




subsection \<open>The sequence factor\<close>

text \<open>
  Claim C6 (a session completed more than 48 hours before the evaluation never affects the
  factor) is broken by the code: the window test is \<^verbatim>\<open>.days <= 2\<close>, which holds until
  three full days have passed. Two intense sessions completed 60 hours ago give a hard
  candidate the factor 0.4, where the 48-hour window of the claim gives 1.0.
\<close>

theorem sequence_window_is_three_days:
  "48 * 3600 * 1000000 < sixty_hours - 0
   \<and> fst (analyze_sequence sixty_hours threshold_3x10 (Some completed_intense) None []) = 0.4
   \<and> spec_sequence_factor sixty_hours threshold_3x10 (Some completed_intense) = 1.0"
  by (simp add: analyze_sequence_def spec_sequence_factor_def completed_intense_def
      sixty_hours_def in_last_48h_def within_48h_def timedelta_days_def threshold_3x10_def
      vma_10x400_def Let_def)

subsection \<open>The second scenario of the specification\<close>

lemma scenario2_score:
  "calculate_recovery_score (scenario2_metrics q al cl busy slots)
   = Inr (29.5, (scenario2_metrics q al cl busy slots)
                  \<lparr>recovery_score := Some 29.5, readiness_level := Some RL_POOR\<rparr>)"
proof -
  let ?m = "scenario2_metrics q al cl busy slots"
  have ps: "present_scores ?m = [(Sleep, 3 / 10), (Load, 2 / 7)]"
    by (simp add: scenario2_metrics_def present_scores_def triangular_def acwr_value_def
        truthy_def)
  have u: "spec_unrounded ?m = 2270 / 77"
    by (simp add: spec_unrounded_def ps spec_weight_def Let_def)
  have v: "spec_recovery_score ?m = 29.5"
    by (simp add: spec_recovery_score_def u ps py_round_def round_half_even_def Let_def)
  have "calculate_recovery_score ?m = Inr (spec_recovery_score ?m, scored ?m)"
    by (rule calculate_recovery_score_spec)
       (simp_all add: scenario2_metrics_def valid_opt_def acwr_usable_def truthy_def)
  then show ?thesis
    by (simp add: v scored_def spec_tier_def)
       (simp add: scenario2_metrics_def ensure_acwr_def truthy_def)
qed

lemma sequence_factor_details:
  "fst (analyze_sequence now s recent upcoming ds) = fst (analyze_sequence now s recent upcoming [])"
  by (cases recent) (auto simp: analyze_sequence_def Let_def)

lemma scenario2_factors:
  assumes "slots = [] \<or> (16 - busy) * 60 < duration_minutes s + 30"
    and "fst (analyze_sequence now s recent upcoming []) = 1"
  shows "\<exists>ds m. analyze_factors now s (scenario2_metrics q al cl busy slots) upcoming recent
           = Inr ((29.5, 0.295, (if slots = [] then 0.5 else 0.3), 0.3, 1), ds, m)"
proof -
  define m0 where "m0 = scenario2_metrics q al cl busy slots"
  define m1 where "m1 = m0\<lparr>recovery_score := Some 29.5, readiness_level := Some RL_POOR\<rparr>"
  define ds1 where "ds1 = [RecoveryScoreLine 29.5 (Some RL_POOR), SleepLine 4 q,
                          AcwrLine 1.8 SurchargeImportante]"
  have f0: "recovery_score m0 = None"
    by (simp add: m0_def scenario2_metrics_def)
  have f1: "calculate_recovery_score m0 = Inr (29.5, m1)"
    unfolding m0_def m1_def by (rule scenario2_score)
  have e: "effective_score m1 = 29.5"
    by (simp add: m1_def effective_score_def truthy_def)
  have r: "analyze_recovery 29.5 m1 [] = Inr (0.295, ds1, m1)"
    by (simp add: analyze_recovery_def m1_def m0_def ds1_def scenario2_metrics_def truthy_def
        get_fatigue_status_def ensure_acwr_def Let_def)
  have "fst (analyze_availability s m1 ds1) = (if slots = [] then 0.5 else 0.3)"
    using assms(1)
    by (auto simp: analyze_availability_def has_available_time_def m1_def m0_def
        scenario2_metrics_def Let_def)
  then obtain ds2 where a: "analyze_availability s m1 ds1 = ((if slots = [] then 0.5 else 0.3), ds2)"
    by (cases "analyze_availability s m1 ds1") simp
  have l: "analyze_training_load m1 recent ds2 = 0.3"
    by (simp add: analyze_training_load_def m1_def m0_def scenario2_metrics_def truthy_def
        ACWR_OPTIMAL_MIN_def ACWR_OPTIMAL_MAX_def Let_def)
  have "fst (analyze_sequence now s recent upcoming ds2) = 1"
    using assms(2) sequence_factor_details [of now s recent upcoming ds2] by simp
  then obtain ds3 where sq: "analyze_sequence now s recent upcoming ds2 = (1, ds3)"
    by (cases "analyze_sequence now s recent upcoming ds2") simp
  have "analyze_factors now s m0 upcoming recent
        = Inr ((29.5, 0.295, (if slots = [] then 0.5 else 0.3), 0.3, 1), ds3, m1)"
    by (simp only: analyze_factors_def f0 f1 e r a l sq Let_def sum.case prod.case
        simp_thms if_True)
  then show ?thesis
    unfolding m0_def by blast
qed

text \<open>
  Claim C5, as amended. For the aggregate of the scenario (sleep of 4 hours scored 30, no
  HRV, no resting heart rate, ACWR 1.8, no subjective record) with no time for the session
  (no free slot, or free slots and not enough free hours), adapting any non-key session
  whose sequence factor is 1.0 (in particular with no recent history) yields the composite
  score 46.8 without free slots and 43.8 with them, which is not below 40, and the action
  of the poor band: REPLACE for a hard or very hard session, REDUCE otherwise.
\<close>

theorem scenario2_is_poor_band:
  assumes "\<not> is_key_session s"
    and "slots = [] \<or> (16 - busy) * 60 < duration_minutes s + 30"
    and "fst (analyze_sequence now s recent upcoming []) = 1"
  shows "session_composite now s (scenario2_metrics q al cl busy slots) upcoming recent
           = Inr (if slots = [] then 46.8 else 43.8)
         \<and> adapt_action now s (scenario2_metrics q al cl busy slots) upcoming recent
           = Inr (if intensity s = HARD \<or> intensity s = VERY_HARD then REPLACE else REDUCE)"
proof -
  from scenario2_factors [OF assms(2,3)] obtain ds m where
    f: "analyze_factors now s (scenario2_metrics q al cl busy slots) upcoming recent
        = Inr ((29.5, 0.295, (if slots = [] then 0.5 else 0.3), 0.3, 1), ds, m)"
    by blast
  have c: "session_composite now s (scenario2_metrics q al cl busy slots) upcoming recent
           = Inr (if slots = [] then 46.8 else 43.8)"
    by (simp add: session_composite_def f composite_score_def)
  have "fst (decide_action RECOVERY_THRESHOLDS s 29.5 0.295 (if slots = [] then 0.5 else 0.3) 0.3 1)
        = (if intensity s = HARD \<or> intensity s = VERY_HARD then REPLACE else REDUCE)"
    using assms(1)
    by (simp add: decide_action_def composite_score_def RECOVERY_THRESHOLDS_def Let_def)
  then have "adapt_action now s (scenario2_metrics q al cl busy slots) upcoming recent
           = Inr (if intensity s = HARD \<or> intensity s = VERY_HARD then REPLACE else REDUCE)"
    by (simp add: adapt_action_def adapt_session_def f split_beta Let_def)
  with c show ?thesis by simp
qed

text \<open>The amended claim at the easy example session, with a fully busy day.\<close>

theorem scenario2_is_poor_band_witness:
  "\<not> is_key_session endurance_60
   \<and> (16 - 24) * 60 < duration_minutes endurance_60 + 30
   \<and> fst (analyze_sequence 0 endurance_60 None None []) = 1
   \<and> session_composite 0 endurance_60 (scenario2_metrics SQ_POOR 0 0 24 [''18:00-20:00'']) None None
       = Inr 43.8
   \<and> adapt_action 0 endurance_60 (scenario2_metrics SQ_POOR 0 0 24 [''18:00-20:00'']) None None
       = Inr REDUCE"
proof -
  have h1: "\<not> is_key_session endurance_60"
    by (simp add: endurance_60_def)
  have h2: "(16 - 24) * 60 < duration_minutes endurance_60 + 30"
    by (simp add: endurance_60_def)
  have h3: "fst (analyze_sequence 0 endurance_60 None None []) = 1"
    by (simp add: analyze_sequence_def)
  have h2': "[''18:00-20:00''] = [] \<or> (16 - 24) * 60 < duration_minutes endurance_60 + 30"
    using h2 by simp
  have i: "intensity endurance_60 = EASY"
    by (simp add: endurance_60_def)
  from scenario2_is_poor_band [OF h1 h2' h3, where q = SQ_POOR and al = 0 and cl = 0]
    h1 h2 h3 i
  show ?thesis by simp
qed

text \<open>
  Claim C5 as stated fails: for the easy, non-key example session without history the
  composite score of the scenario is 43.8 (slots, no time) or 46.8 (no slots), not below
  40, and the action is REDUCE, neither CANCEL nor POSTPONE.
\<close>

theorem scenario2_counterexample:
  "\<not> is_key_session endurance_60
   \<and> \<not> has_available_time (scenario2_metrics SQ_POOR 0 0 24 [''18:00-20:00''])
          (duration_minutes endurance_60 + 30)
   \<and> session_composite 0 endurance_60 (scenario2_metrics SQ_POOR 0 0 24 [''18:00-20:00''])
        None None = Inr (219 / 5)
   \<and> \<not> ((219 / 5 :: real) < 40)
   \<and> adapt_action 0 endurance_60 (scenario2_metrics SQ_POOR 0 0 24 [''18:00-20:00''])
        None None = Inr REDUCE
   \<and> session_composite 0 endurance_60 (scenario2_metrics SQ_POOR 0 0 24 []) None None
        = Inr (234 / 5)
   \<and> \<not> ((234 / 5 :: real) < 40)
   \<and> adapt_action 0 endurance_60 (scenario2_metrics SQ_POOR 0 0 24 []) None None = Inr REDUCE"
proof -
  have h1: "\<not> is_key_session endurance_60"
    by (simp add: endurance_60_def)
  have h2: "\<not> has_available_time (scenario2_metrics SQ_POOR 0 0 24 [''18:00-20:00''])
          (duration_minutes endurance_60 + 30)"
    by (simp add: has_available_time_def scenario2_metrics_def endurance_60_def)
  have d: "fst (decide_action RECOVERY_THRESHOLDS endurance_60 29.5 0.295 a 0.3 1) = REDUCE"
    if "a = 0.3 \<or> a = 0.5" for a
    using that
    by (auto simp: decide_action_def composite_score_def RECOVERY_THRESHOLDS_def Let_def
        endurance_60_def)
  have "\<exists>ds m. analyze_factors 0 endurance_60
                  (scenario2_metrics SQ_POOR 0 0 24 [''18:00-20:00'']) None None
           = Inr ((29.5, 0.295, (if [''18:00-20:00''] = [] then 0.5 else 0.3), 0.3, 1), ds, m)"
    by (rule scenario2_factors) (simp_all add: endurance_60_def analyze_sequence_def)
  then obtain ds m where
    f: "analyze_factors 0 endurance_60 (scenario2_metrics SQ_POOR 0 0 24 [''18:00-20:00''])
          None None = Inr ((29.5, 0.295, 0.3, 0.3, 1), ds, m)"
    by auto
  have c: "session_composite 0 endurance_60 (scenario2_metrics SQ_POOR 0 0 24 [''18:00-20:00''])
             None None = Inr (219 / 5)"
    by (simp add: session_composite_def f composite_score_def)
  have a: "adapt_action 0 endurance_60 (scenario2_metrics SQ_POOR 0 0 24 [''18:00-20:00''])
             None None = Inr REDUCE"
    using d [of "0.3"] by (simp add: adapt_action_def adapt_session_def f split_beta Let_def)
  have "\<exists>ds m. analyze_factors 0 endurance_60 (scenario2_metrics SQ_POOR 0 0 24 []) None None
           = Inr ((29.5, 0.295, (if ([] :: string list) = [] then 0.5 else 0.3), 0.3, 1), ds, m)"
    by (rule scenario2_factors) (simp_all add: endurance_60_def analyze_sequence_def)
  then obtain ds' m' where
    f': "analyze_factors 0 endurance_60 (scenario2_metrics SQ_POOR 0 0 24 []) None None
         = Inr ((29.5, 0.295, 0.5, 0.3, 1), ds', m')"
    by auto
  have c': "session_composite 0 endurance_60 (scenario2_metrics SQ_POOR 0 0 24 []) None None
            = Inr (234 / 5)"
    by (simp add: session_composite_def f' composite_score_def)
  have a': "adapt_action 0 endurance_60 (scenario2_metrics SQ_POOR 0 0 24 []) None None
            = Inr REDUCE"
    using d [of "0.5"] by (simp add: adapt_action_def adapt_session_def f' split_beta Let_def)
  from h1 h2 c a c' a' show ?thesis by simp
qed

subsection \<open>The convenience entry point\<close>

lemma quick_factors:
  "\<exists>ds. analyze_factors now s (quick_metrics r h) None None
         = Inr ((effective_score (quick_metrics r h), effective_score (quick_metrics r h) / 100,
                 quick_availability s h, 0.7, 1), ds, quick_metrics r h)"
proof -
  define m where "m = quick_metrics r h"
  define e where "e = effective_score m"
  define ds1 where "ds1 = [RecoveryScoreLine e (readiness_level m)]"
  have f0: "recovery_score m \<noteq> None"
    by (simp add: m_def quick_metrics_def)
  have rr: "analyze_recovery e m [] = Inr (e / 100.0, ds1, m)"
    by (simp add: analyze_recovery_def m_def quick_metrics_def ds1_def Let_def)
  have "fst (analyze_availability s m ds1) = quick_availability s h"
    by (auto simp: analyze_availability_def has_available_time_def m_def quick_metrics_def
        quick_availability_def Let_def)
  then obtain ds2 where a: "analyze_availability s m ds1 = (quick_availability s h, ds2)"
    by (cases "analyze_availability s m ds1") simp
  have l: "analyze_training_load m None ds2 = 0.7"
    by (simp add: analyze_training_load_def m_def quick_metrics_def)
  have sq: "analyze_sequence now s None None ds2 = (1.0, ds2)"
    by (simp add: analyze_sequence_def)
  have "analyze_factors now s m None None
        = Inr ((e, e / 100.0, quick_availability s h, 0.7, 1.0), ds2, m)"
    by (simp only: analyze_factors_def f0 e_def [symmetric] rr a l sq Let_def sum.case
        prod.case simp_thms if_False)
  then show ?thesis
    unfolding m_def e_def by auto
qed

lemma quick_composite_bound:
  assumes "0 \<le> r" and "r \<le> 100"
  shows "42 < composite_score (effective_score (quick_metrics r h) / 100) 0.7 1
               (quick_availability s h)"
  using assms
  by (auto simp: composite_score_def effective_score_def quick_metrics_def truthy_def
      quick_availability_def)

lemma above_poor_never_rests:
  assumes "40 \<le> composite_score rf lf sf af"
  shows "fst (decide_action RECOVERY_THRESHOLDS s score rf af lf sf)
         \<in> {MAINTAIN, MONITOR, REDUCE, REPLACE}"
  using assms
  by (simp add: decide_action_def RECOVERY_THRESHOLDS_def Let_def)

text \<open>
  Claim C10, as amended. For every session, every recovery score in [0,100] and both
  values of the flag, the convenience entry point returns a recommendation whose action
  is MAINTAIN, MONITOR, REDUCE or REPLACE, never POSTPONE or CANCEL: its aggregate has
  load factor 0.7, sequence factor 1.0 and availability factor 0.5 without the flag, 1.0
  with the flag and a session of at most 930 minutes, 0.3 with the flag and a longer
  session, so the composite score is above 42, above the poor threshold.
\<close>

theorem quick_adapt_never_rests:
  assumes "0 \<le> r" and "r \<le> 100"
  shows "(\<exists>rec. quick_adapt now s r h = Inr rec
                \<and> action rec \<in> {MAINTAIN, MONITOR, REDUCE, REPLACE})
         \<and> analyze_training_load (quick_metrics r h) None ds = 0.7
         \<and> fst (analyze_sequence now s None None ds) = 1.0
         \<and> fst (analyze_availability s (quick_metrics r h) ds)
             = (if h then (if duration_minutes s \<le> 930 then 1.0 else 0.3) else 0.5)
         \<and> (\<exists>c. session_composite now s (quick_metrics r h) None None = Inr c \<and> 42 < c)"
proof -
  obtain ds' where
    f: "analyze_factors now s (quick_metrics r h) None None
         = Inr ((effective_score (quick_metrics r h), effective_score (quick_metrics r h) / 100,
                 quick_availability s h, 0.7, 1), ds', quick_metrics r h)"
    using quick_factors by blast
  note b = quick_composite_bound [OF assms, of h s]
  have c: "\<exists>c. session_composite now s (quick_metrics r h) None None = Inr c \<and> 42 < c"
    using b by (simp add: session_composite_def f)
  have "fst (decide_action RECOVERY_THRESHOLDS s (effective_score (quick_metrics r h))
               (effective_score (quick_metrics r h) / 100) (quick_availability s h) 0.7 1)
        \<in> {MAINTAIN, MONITOR, REDUCE, REPLACE}"
    by (rule above_poor_never_rests) (use b in simp)
  then have q: "\<exists>rec. quick_adapt now s r h = Inr rec
                \<and> action rec \<in> {MAINTAIN, MONITOR, REDUCE, REPLACE}"
    using assms by (simp add: quick_adapt_def adapt_session_def f split_beta Let_def)
  have l: "analyze_training_load (quick_metrics r h) None ds = 0.7"
    by (simp add: analyze_training_load_def quick_metrics_def)
  have sq: "fst (analyze_sequence now s None None ds) = 1.0"
    by (simp add: analyze_sequence_def)
  have a: "fst (analyze_availability s (quick_metrics r h) ds)
             = (if h then (if duration_minutes s \<le> 930 then 1.0 else 0.3) else 0.5)"
    by (auto simp: analyze_availability_def has_available_time_def quick_metrics_def Let_def)
  from q l sq a c show ?thesis by blast
qed

text \<open>The amended claim at the threshold example session and recovery score 60.\<close>

theorem quick_adapt_never_rests_witness:
  "(0::real) \<le> 60 \<and> (60::real) \<le> 100
   \<and> (\<exists>rec. quick_adapt 0 threshold_3x10 60 True = Inr rec
             \<and> action rec \<in> {MAINTAIN, MONITOR, REDUCE, REPLACE})
   \<and> (\<exists>c. session_composite 0 threshold_3x10 (quick_metrics 60 True) None None = Inr c
            \<and> 42 < c)"
proof -
  have h1: "(0::real) \<le> 60" by simp
  have h2: "(60::real) \<le> 100" by simp
  from quick_adapt_never_rests [OF h1 h2, of 0 threshold_3x10 True "[]"] h1 h2
  show ?thesis by blast
qed

text \<open>
  Claim C10 as stated fails in its bounds: for a session of 931 minutes with the flag set
  the availability factor is 0.3, below 0.5, and at recovery score 1 the composite score is
  42.4, below 45.
\<close>

theorem quick_adapt_low_availability_counterexample:
  "fst (analyze_availability (endurance_60\<lparr>duration_minutes := 931\<rparr>) (quick_metrics 1 True) [])
     = 3 / 10
   \<and> \<not> (5 / 10 \<le> (3 / 10 :: real))
   \<and> session_composite 0 (endurance_60\<lparr>duration_minutes := 931\<rparr>) (quick_metrics 1 True) None None
     = Inr (212 / 5)
   \<and> \<not> (45 \<le> (212 / 5 :: real))"
  by (simp add: session_composite_def analyze_factors_def quick_metrics_def effective_score_def
      truthy_def analyze_recovery_def analyze_availability_def has_available_time_def
      analyze_training_load_def analyze_sequence_def composite_score_def endurance_60_def
      Let_def)

end
